theory Spec2Isabelle
  imports Main "HOL-Library.Word"
begin

unbundle bit_operations_syntax

section \<open>The two-wire transport\<close>

text \<open>
  The driver in \<open>LiMAX17048G.cpp\<close> talks to the gauge through the Arduino \<open>Wire\<close>
  object, which is not part of the repository. Its five calls are modelled here, over
  any device: a device is a pair of functions on a device state \<open>'d\<close>, one answering a
  write transaction with a status code, one answering a read request with bytes.
  The transport keeps a capture of every transaction it puts on the wire.
\<close>

type_synonym byte = "8 word"

datatype xfer =
  Sent byte "byte list" bool
| Requested byte nat

record 'd device =
  on_write :: "byte \<Rightarrow> byte list \<Rightarrow> bool \<Rightarrow> 'd \<Rightarrow> byte \<times> 'd"
  on_read :: "byte \<Rightarrow> nat \<Rightarrow> 'd \<Rightarrow> byte list \<times> 'd"

record 'd wire =
  dev :: 'd
  txaddr :: byte
  txbuf :: "byte list"
  rxbuf :: "byte list"
  capture :: "xfer list"

text \<open>
  Modelled from the spec: the Bus Transport capability of section 2
  (\<open>beginTransaction(address)\<close>, \<open>writeByte(value)\<close>,
  \<open>endTransaction(stopCondition) -> status\<close>, \<open>readBytes(address, count)\<close>), which the
  source calls as \<open>Wire.beginTransmission\<close>, \<open>Wire.write\<close>, \<open>Wire.endTransmission\<close>,
  \<open>Wire.requestFrom\<close> and \<open>Wire.read\<close>. A write transaction is the register byte
  followed by the data bytes (section 6); \<open>Wire.read\<close> yields the next received byte
  as an \<open>int\<close>, and \<open>-1\<close> when none is left.
\<close>

definition Wire_beginTransmission :: "byte \<Rightarrow> 'd wire \<Rightarrow> 'd wire" where
  "Wire_beginTransmission a w = w\<lparr>txaddr := a, txbuf := []\<rparr>"

definition Wire_write :: "byte \<Rightarrow> 'd wire \<Rightarrow> 'd wire" where
  "Wire_write b w = w\<lparr>txbuf := txbuf w @ [b]\<rparr>"

definition Wire_endTransmission :: "'d device \<Rightarrow> bool \<Rightarrow> 'd wire \<Rightarrow> byte \<times> 'd wire" where
  "Wire_endTransmission D stop w =
     (case on_write D (txaddr w) (txbuf w) stop (dev w) of
        (st, d') \<Rightarrow>
          (st, w\<lparr>dev := d', txbuf := [],
                 capture := capture w @ [Sent (txaddr w) (txbuf w) stop]\<rparr>))"

definition Wire_requestFrom :: "'d device \<Rightarrow> byte \<Rightarrow> nat \<Rightarrow> 'd wire \<Rightarrow> 'd wire" where
  "Wire_requestFrom D a n w =
     (case on_read D a n (dev w) of
        (bs, d') \<Rightarrow>
          w\<lparr>dev := d', rxbuf := take n bs, capture := capture w @ [Requested a n]\<rparr>)"

definition Wire_read :: "'d wire \<Rightarrow> int \<times> 'd wire" where
  "Wire_read w =
     (case rxbuf w of
        [] \<Rightarrow> (- 1, w)
      | b # bs \<Rightarrow> (uint b, w\<lparr>rxbuf := bs\<rparr>))"

section \<open>What the header declares\<close>

text \<open>
  \<open>LiMAX17048G.h\<close> is not part of the sources at hand. The register addresses it
  defines are taken as parameters, and so is \<open>thrd\<close>: line 110 of the source writes
  \<open>sleepBit | thrd\<close>, an identifier that \<open>LiMAX17048G.cpp\<close> never declares (the
  parameter of \<open>setAlertThreshold\<close> is called \<open>threshold\<close>), so whatever it denotes
  comes from the header.
\<close>

record header =
  MAX1704X_ADDR :: byte
  MAX1704X_VCELL_ADDR :: byte
  MAX1704X_RCOMP_ADDR :: byte
  MAX1704X_ATHRD_ADDR :: byte
  MAX1704X_CONFIG_ADDR :: byte
  MAX1704X_MODE_ADDR :: byte
  MAX1704X_COMMAND_ADDR :: byte
  thrd :: byte

text \<open>
  The \<open>double\<close> arithmetic of \<open>getCellVolt\<close> is kept abstract: the conversion from
  \<open>int\<close>, the multiplication, the literal \<open>0.00125\<close> and the value of the member
  \<open>_ic\<close> are parameters, over any carrier \<open>'f\<close>.
\<close>

record 'f fpu =
  of_int_double :: "int \<Rightarrow> 'f"
  mul_double :: "'f \<Rightarrow> 'f \<Rightarrow> 'f"
  lit_0_00125 :: 'f
  ic :: 'f

section \<open>The driver\<close>

text \<open>
  Each member function of \<open>MAX17048G\<close> takes the device, the header and the transport
  state, and returns its result with the new transport state. C's integer promotion is
  written out where it matters: \<open>~\<close> acts on the promoted \<open>int\<close>, and the result is
  cut back to eight bits where the source stores or returns a \<open>uint8_t\<close>. Every value
  that occurs lies between \<open>-256\<close> and \<open>4095\<close>, so the width of \<open>int\<close> plays no role.
\<close>

definition getCellVolt :: "'d device \<Rightarrow> header \<Rightarrow> 'f fpu \<Rightarrow> 'd wire \<Rightarrow> 'f \<times> 'd wire" where
  "getCellVolt D K F w =
     (let w1 = Wire_beginTransmission (MAX1704X_ADDR K) w;
          w2 = Wire_write (MAX1704X_VCELL_ADDR K) w1;
          (_, w3) = Wire_endTransmission D True w2;
          w4 = Wire_requestFrom D (MAX1704X_ADDR K) 2 w3;
          (r0, w5) = Wire_read w4;
          (r1, w6) = Wire_read w5
      in (mul_double F
            (mul_double F (of_int_double F (push_bit 4 r0 + drop_bit 4 r1)) (lit_0_00125 F))
            (ic F),
          w6))"

definition getCompensateValue :: "'d device \<Rightarrow> header \<Rightarrow> 'd wire \<Rightarrow> byte \<times> 'd wire" where
  "getCompensateValue D K w =
     (let w1 = Wire_beginTransmission (MAX1704X_ADDR K) w;
          w2 = Wire_write (MAX1704X_RCOMP_ADDR K) w1;
          (_, w3) = Wire_endTransmission D True w2;
          w4 = Wire_requestFrom D (MAX1704X_ADDR K) 1 w3;
          (r, w5) = Wire_read w4
      in (word_of_int r, w5))"

definition getStatus :: "'d device \<Rightarrow> header \<Rightarrow> 'd wire \<Rightarrow> byte \<times> 'd wire" where
  "getStatus D K w =
     (let w1 = Wire_beginTransmission (MAX1704X_ADDR K) w;
          w2 = Wire_write (MAX1704X_ATHRD_ADDR K) w1;
          (_, w3) = Wire_endTransmission D True w2;
          w4 = Wire_requestFrom D (MAX1704X_ADDR K) 1 w3;
          (r, w5) = Wire_read w4
      in (word_of_int r, w5))"

definition getAlertThreshold :: "'d device \<Rightarrow> header \<Rightarrow> 'd wire \<Rightarrow> byte \<times> 'd wire" where
  "getAlertThreshold D K w =
     (let (status, w1) = getStatus D K w
      in (word_of_int ((NOT (uint status) AND 0x1F) + 1), w1))"

definition setCompensation :: "'d device \<Rightarrow> header \<Rightarrow> byte \<Rightarrow> 'd wire \<Rightarrow> byte \<times> 'd wire" where
  "setCompensation D K compensation w =
     (let (status, w1) = getStatus D K w;
          w2 = Wire_beginTransmission (MAX1704X_ADDR K) w1;
          w3 = Wire_write (MAX1704X_CONFIG_ADDR K) w2;
          w4 = Wire_write compensation w3;
          w5 = Wire_write status w4
      in Wire_endTransmission D True w5)"

text \<open>
  Lines 96 to 98 of \<open>setAlertThreshold\<close>: the clamp and the encoding, which the source
  assigns back to its parameter \<open>threshold\<close>.
\<close>

definition encoded_threshold :: "byte \<Rightarrow> byte" where
  "encoded_threshold threshold =
     (let t = (if threshold > 32 then 32 else if threshold < 1 then 1 else threshold)
      in word_of_int ((NOT (uint t) + 1) AND 0x1F))"

definition setAlertThreshold :: "'d device \<Rightarrow> header \<Rightarrow> byte \<Rightarrow> 'd wire \<Rightarrow> byte \<times> 'd wire" where
  "setAlertThreshold D K threshold0 w =
     (let threshold = encoded_threshold threshold0;
          w1 = Wire_beginTransmission (MAX1704X_ADDR K) w;
          w2 = Wire_write (MAX1704X_CONFIG_ADDR K) w1;
          (_, w3) = Wire_endTransmission D False w2;
          w4 = Wire_requestFrom D (MAX1704X_ADDR K) 2 w3;
          (r0, w5) = Wire_read w4;
          compensation = (word_of_int r0 :: byte);
          (r1, w6) = Wire_read w5;
          sleepBit = (word_of_int (r1 AND 0x80) :: byte);
          w7 = Wire_beginTransmission (MAX1704X_ADDR K) w6;
          w8 = Wire_write (MAX1704X_CONFIG_ADDR K) w7;
          w9 = Wire_write compensation w8;
          w10 = Wire_write (sleepBit OR thrd K) w9
      in Wire_endTransmission D True w10)"

text \<open>
  \<open>clearAlertInterrupt\<close>, \<open>sleep\<close> and \<open>wake\<close> call \<open>getCompensation()\<close>, which the
  source file does not define (it defines \<open>getCompensateValue\<close>). The call is a
  parameter \<open>gc\<close>: any function that returns a byte and leaves a transport state.
\<close>

definition clearAlertInterrupt ::
  "('d wire \<Rightarrow> byte \<times> 'd wire) \<Rightarrow> 'd device \<Rightarrow> header \<Rightarrow> 'd wire \<Rightarrow> byte \<times> 'd wire" where
  "clearAlertInterrupt gc D K w =
     (let (compensation, w1) = gc w;
          (status, w2) = getStatus D K w1;
          w3 = Wire_beginTransmission (MAX1704X_ADDR K) w2;
          w4 = Wire_write (MAX1704X_CONFIG_ADDR K) w3;
          w5 = Wire_write compensation w4;
          w6 = Wire_write (0xDF AND status) w5
      in Wire_endTransmission D True w6)"

definition sleep ::
  "('d wire \<Rightarrow> byte \<times> 'd wire) \<Rightarrow> 'd device \<Rightarrow> header \<Rightarrow> 'd wire \<Rightarrow> byte \<times> 'd wire" where
  "sleep gc D K w =
     (let (compensation, w1) = gc w;
          (threshold, w2) = getAlertThreshold D K w1;
          w3 = Wire_beginTransmission (MAX1704X_ADDR K) w2;
          w4 = Wire_write (MAX1704X_CONFIG_ADDR K) w3;
          w5 = Wire_write compensation w4;
          w6 = Wire_write (0x80 OR threshold) w5
      in Wire_endTransmission D True w6)"

definition wake ::
  "('d wire \<Rightarrow> byte \<times> 'd wire) \<Rightarrow> 'd device \<Rightarrow> header \<Rightarrow> 'd wire \<Rightarrow> byte \<times> 'd wire" where
  "wake gc D K w =
     (let (compensation, w1) = gc w;
          (threshold, w2) = getAlertThreshold D K w1;
          w3 = Wire_beginTransmission (MAX1704X_ADDR K) w2;
          w4 = Wire_write (MAX1704X_CONFIG_ADDR K) w3;
          w5 = Wire_write compensation w4;
          w6 = Wire_write (0x7F AND threshold) w5
      in Wire_endTransmission D True w6)"

definition sleeping :: "'d device \<Rightarrow> header \<Rightarrow> 'd wire \<Rightarrow> bool \<times> 'd wire" where
  "sleeping D K w =
     (let (status, w1) = getStatus D K w
      in (status AND 0x80 = 0x80, w1))"

definition quickStart :: "'d device \<Rightarrow> header \<Rightarrow> 'd wire \<Rightarrow> byte \<times> 'd wire" where
  "quickStart D K w =
     (let w1 = Wire_beginTransmission (MAX1704X_ADDR K) w;
          w2 = Wire_write (MAX1704X_MODE_ADDR K) w1;
          w3 = Wire_write 0x40 w2;
          w4 = Wire_write 0x00 w3
      in Wire_endTransmission D True w4)"

definition reset :: "'d device \<Rightarrow> header \<Rightarrow> 'd wire \<Rightarrow> byte \<times> 'd wire" where
  "reset D K w =
     (let w1 = Wire_beginTransmission (MAX1704X_ADDR K) w;
          w2 = Wire_write (MAX1704X_COMMAND_ADDR K) w1;
          w3 = Wire_write 0x54 w2;
          w4 = Wire_write 0x00 w3
      in Wire_endTransmission D True w4)"

section \<open>Observing the wire, and a device to run the driver against\<close>

text \<open>
  \<open>last_sent\<close> is the payload of the most recent write transaction in the capture.
  \<open>status_echoed\<close> says of a transport state that the last transaction wrote the two
  CONFIG bytes and that the device answers the next read of the status byte with the low
  byte just written.
\<close>

definition last_sent :: "'d wire \<Rightarrow> byte list" where
  "last_sent w = (case rev (capture w) of Sent a p stop # _ \<Rightarrow> p | _ \<Rightarrow> [])"

definition status_echoed :: "'d device \<Rightarrow> header \<Rightarrow> 'd wire \<Rightarrow> bool" where
  "status_echoed D K w =
     (case last_sent w of
        [r, c, s] \<Rightarrow>
          r = MAX1704X_CONFIG_ADDR K \<and>
          take 1 (fst (on_read D (MAX1704X_ADDR K) 1
            (snd (on_write D (MAX1704X_ADDR K) [MAX1704X_ATHRD_ADDR K] True (dev w))))) = [s]
      | _ \<Rightarrow> False)"

text \<open>
  \<open>echoes_config\<close> is a property of the device alone: in whatever state it is, once the
  two CONFIG bytes \<open>(c, s)\<close> have been written to it, it answers a read of the status
  byte with \<open>s\<close>.
\<close>

definition echoes_config :: "'d device \<Rightarrow> header \<Rightarrow> bool" where
  "echoes_config D K =
     (\<forall>d c s.
        take 1 (fst (on_read D (MAX1704X_ADDR K) 1
          (snd (on_write D (MAX1704X_ADDR K) [MAX1704X_ATHRD_ADDR K] True
            (snd (on_write D (MAX1704X_ADDR K) [MAX1704X_CONFIG_ADDR K, c, s] True d)))))) = [s])"

text \<open>
  A register file with an address pointer stands in for the gauge: a write transaction
  sets the pointer from its first byte and stores the rest at increasing addresses, a read
  returns the bytes from the pointer on. \<open>example_header\<close> gives the registers the
  addresses of the MAX17048 data sheet and sets \<open>thrd\<close> to zero; \<open>bench\<close> is a fresh
  transport in front of a register file holding the two VCELL bytes and the two CONFIG
  bytes given.
\<close>

record regfile =
  mem :: "byte \<Rightarrow> byte"
  ptr :: byte

fun store :: "(byte \<Rightarrow> byte) \<Rightarrow> byte \<Rightarrow> byte list \<Rightarrow> byte \<Rightarrow> byte" where
  "store m p [] = m"
| "store m p (b # bs) = store (m(p := b)) (p + 1) bs"

definition regfile_device :: "regfile device" where
  "regfile_device =
     \<lparr>on_write = (\<lambda>a payload stop r.
        case payload of
          [] \<Rightarrow> (0, r)
        | p # bs \<Rightarrow> (0, \<lparr>mem = store (mem r) p bs, ptr = p + of_nat (length bs)\<rparr>)),
      on_read = (\<lambda>a n r.
        (map (\<lambda>i. mem r (ptr r + of_nat i)) [0..<n], r\<lparr>ptr := ptr r + of_nat n\<rparr>))\<rparr>"

definition example_header :: header where
  "example_header =
     \<lparr>MAX1704X_ADDR = 0x36, MAX1704X_VCELL_ADDR = 0x02, MAX1704X_RCOMP_ADDR = 0x0C,
      MAX1704X_ATHRD_ADDR = 0x0D, MAX1704X_CONFIG_ADDR = 0x0C, MAX1704X_MODE_ADDR = 0x06,
      MAX1704X_COMMAND_ADDR = 0xFE, thrd = 0\<rparr>"

definition bench :: "byte \<Rightarrow> byte \<Rightarrow> byte \<Rightarrow> byte \<Rightarrow> regfile wire" where
  "bench v0 v1 c s =
     \<lparr>dev = \<lparr>mem = (\<lambda>_. 0)(0x02 := v0, 0x03 := v1, 0x0C := c, 0x0D := s), ptr = 0\<rparr>,
      txaddr = 0, txbuf = [], rxbuf = [], capture = []\<rparr>"

text \<open>
  The free term algebra over the four \<open>double\<close> operations: running \<open>getCellVolt\<close> on it
  shows the expression the source evaluates.
\<close>

datatype dexpr = DInt int | DLit_0_00125 | DIc | DMul dexpr dexpr

definition symbolic_fpu :: "dexpr fpu" where
  "symbolic_fpu =
     \<lparr>of_int_double = DInt, mul_double = DMul, lit_0_00125 = DLit_0_00125, ic = DIc\<rparr>"

section \<open>Transport and bit-level facts\<close>

lemma Wire_read_alt:
  "Wire_read w = (case rxbuf w of [] \<Rightarrow> - 1 | b # _ \<Rightarrow> uint b, w\<lparr>rxbuf := tl (rxbuf w)\<rparr>)"
  by (cases "rxbuf w") (simp_all add: Wire_read_def)

lemmas Wire_simps = Wire_beginTransmission_def Wire_write_def Wire_endTransmission_def
  Wire_requestFrom_def Wire_read_alt Let_def case_prod_beta

text \<open>The promoted \<open>int\<close> expressions of the source, cut to a byte, are byte operations.\<close>

lemma cast_and_80: "(word_of_int (uint s AND 0x80) :: byte) = s AND 0x80"
  by (simp add: of_int_and_eq)

lemma decode_word: "(word_of_int ((NOT (uint s) AND 0x1F) + 1) :: byte) = (NOT s AND 0x1F) + 1"
  by (simp add: of_int_and_eq of_int_not_eq)

lemma encode_word: "(word_of_int ((NOT (uint t) + 1) AND 0x1F) :: byte) = (- t) AND 0x1F"
  by (simp add: of_int_and_eq of_int_not_eq minus_eq_not_plus_1)

lemma and_1F_le: "unat (x AND 0x1F :: byte) \<le> 31"
proof -
  have "x AND 0x1F \<le> 0x1F" by (rule word_and_le1)
  then show ?thesis by (simp add: word_le_nat_alt)
qed

lemma decode_unat: "unat ((NOT s AND 0x1F) + 1 :: byte) = unat (NOT s AND 0x1F :: byte) + 1"
  using and_1F_le [of "NOT s"] by (simp add: unat_word_ariths)

lemma not_and_and: "NOT (x AND m) AND m = NOT x AND (m :: byte)"
  by (auto simp add: bit_eq_iff bit_simps)

lemma small_and_1F:
  assumes "x \<le> 31" shows "x AND 0x1F = (x :: byte)"
proof -
  have "x < 2 ^ 5" using assms by (simp add: word_le_nat_alt word_less_nat_alt)
  then have "x AND mask 5 = x" by (rule less_mask_eq)
  then show ?thesis by (simp add: mask_eq_exp_minus_1)
qed

lemma roundtrip_word:
  assumes "1 \<le> p" and "p \<le> 32"
  shows "(NOT ((- p) AND 0x1F) AND 0x1F) + 1 = (p :: byte)"
proof -
  have "unat (p - 1) = unat p - 1"
    using assms(1) by (simp add: unat_sub)
  moreover have "unat p \<le> 32"
    using assms(2) by (simp add: word_le_nat_alt)
  ultimately have "p - 1 \<le> 31"
    by (simp add: word_le_nat_alt)
  then have a: "(p - 1) AND 0x1F = p - 1"
    by (rule small_and_1F)
  have "NOT ((- p) AND 0x1F) AND 0x1F = NOT (- p) AND 0x1F"
    by (rule not_and_and)
  also have "NOT (- p) = p - 1"
    by (simp only: decr_eq_not_minus)
  finally show ?thesis using a by simp
qed

section \<open>The status byte and the threshold\<close>

lemma getStatus_fst:
  "fst (getStatus D K w) =
     (case take 1 (fst (on_read D (MAX1704X_ADDR K) 1
             (snd (on_write D (MAX1704X_ADDR K) [MAX1704X_ATHRD_ADDR K] True (dev w))))) of
        [] \<Rightarrow> - 1 | b # _ \<Rightarrow> b)"
  by (simp add: getStatus_def Wire_simps split: list.split)

lemma getStatus_capture:
  "capture (snd (getStatus D K w)) = capture w @
     [Sent (MAX1704X_ADDR K) [MAX1704X_ATHRD_ADDR K] True, Requested (MAX1704X_ADDR K) 1]"
  by (simp add: getStatus_def Wire_simps)

lemma getStatus_answer:
  assumes "fst (on_read D (MAX1704X_ADDR K) 1
             (snd (on_write D (MAX1704X_ADDR K) [MAX1704X_ATHRD_ADDR K] True (dev w)))) = s # rest"
  shows "fst (getStatus D K w) = s"
  using assms by (simp add: getStatus_fst)

lemma getAlertThreshold_fst:
  "fst (getAlertThreshold D K w) = (NOT (fst (getStatus D K w)) AND 0x1F) + 1"
  by (simp only: getAlertThreshold_def case_prod_beta Let_def fst_conv decode_word)

lemma getAlertThreshold_snd:
  "snd (getAlertThreshold D K w) = snd (getStatus D K w)"
  by (simp add: getAlertThreshold_def case_prod_beta)

lemma encoded_threshold_word:
  "encoded_threshold p = (- (if p > 32 then 32 else if p < 1 then 1 else p)) AND 0x1F"
  by (simp only: encoded_threshold_def Let_def encode_word)

text \<open>
  C9. Whatever the device answers to the status read (any of the 256 byte values, or
  nothing at all), \<open>getAlertThreshold\<close> returns a value that is at least 1 and at
  most 32.
\<close>

theorem getAlertThreshold_range:
  "1 \<le> unat (fst (getAlertThreshold D K w)) \<and> unat (fst (getAlertThreshold D K w)) \<le> 32"
  using and_1F_le [of "NOT (fst (getStatus D K w))"]
  by (simp add: getAlertThreshold_fst decode_unat)

section \<open>Commands\<close>

text \<open>
  C7. \<open>quickStart\<close> is one write transaction to the device address whose payload is the
  MODE register address followed by \<open>0x40, 0x00\<close>, and \<open>reset\<close> is one write
  transaction whose payload is the COMMAND register address followed by \<open>0x54, 0x00\<close>:
  each returns the status of that transaction, hands the device that payload and nothing
  else, and adds that single transaction to the capture. The two data bytes, high byte
  first, are the values \<open>0x4000\<close> and \<open>0x5400\<close>.
\<close>

theorem quickStart_reset_payload:
  "quickStart D K w =
     (fst (on_write D (MAX1704X_ADDR K) [MAX1704X_MODE_ADDR K, 0x40, 0x00] True (dev w)),
      w\<lparr>dev := snd (on_write D (MAX1704X_ADDR K) [MAX1704X_MODE_ADDR K, 0x40, 0x00] True (dev w)),
        txaddr := MAX1704X_ADDR K, txbuf := [],
        capture := capture w @ [Sent (MAX1704X_ADDR K) [MAX1704X_MODE_ADDR K, 0x40, 0x00] True]\<rparr>)
   \<and> reset D K w =
     (fst (on_write D (MAX1704X_ADDR K) [MAX1704X_COMMAND_ADDR K, 0x54, 0x00] True (dev w)),
      w\<lparr>dev := snd (on_write D (MAX1704X_ADDR K) [MAX1704X_COMMAND_ADDR K, 0x54, 0x00] True (dev w)),
        txaddr := MAX1704X_ADDR K, txbuf := [],
        capture := capture w @ [Sent (MAX1704X_ADDR K) [MAX1704X_COMMAND_ADDR K, 0x54, 0x00] True]\<rparr>)
   \<and> word_cat (0x40 :: byte) (0x00 :: byte) = (0x4000 :: 16 word)
   \<and> word_cat (0x54 :: byte) (0x00 :: byte) = (0x5400 :: 16 word)"
  by (simp add: quickStart_def reset_def Wire_simps word_cat_eq)

section \<open>Read-modify-write of CONFIG\<close>

text \<open>
  C5. When the device answers the status read of \<open>setCompensation\<close> with the byte \<open>s\<close>,
  the operation puts three transactions on the wire: the pointer write and the one-byte
  read of the status byte, then a write of CONFIG with the two data bytes \<open>(value, s)\<close>.
  The status byte goes back unchanged, all eight bits of it; the compensation byte is the
  argument.
\<close>

theorem setCompensation_keeps_status:
  assumes "fst (on_read D (MAX1704X_ADDR K) 1
             (snd (on_write D (MAX1704X_ADDR K) [MAX1704X_ATHRD_ADDR K] True (dev w)))) = s # rest"
  shows "capture (snd (setCompensation D K v w)) = capture w @
     [Sent (MAX1704X_ADDR K) [MAX1704X_ATHRD_ADDR K] True, Requested (MAX1704X_ADDR K) 1,
      Sent (MAX1704X_ADDR K) [MAX1704X_CONFIG_ADDR K, v, s] True]"
  using getStatus_answer [OF assms]
  by (simp add: setCompensation_def case_prod_beta Let_def getStatus_capture
      Wire_beginTransmission_def Wire_write_def Wire_endTransmission_def)

theorem setCompensation_keeps_status_witness:
  "fst (on_read regfile_device (MAX1704X_ADDR example_header) 1
     (snd (on_write regfile_device (MAX1704X_ADDR example_header)
        [MAX1704X_ATHRD_ADDR example_header] True (dev (bench 0 0 0x97 0x5C))))) = 0x5C # []
   \<and> capture (snd (setCompensation regfile_device example_header 0x55 (bench 0 0 0x97 0x5C))) =
     [Sent 0x36 [0x0D] True, Requested 0x36 1, Sent 0x36 [0x0C, 0x55, 0x5C] True]"
proof -
  have h: "fst (on_read regfile_device (MAX1704X_ADDR example_header) 1
     (snd (on_write regfile_device (MAX1704X_ADDR example_header)
        [MAX1704X_ATHRD_ADDR example_header] True (dev (bench 0 0 0x97 0x5C))))) = 0x5C # []"
    by code_simp
  have k: "capture (bench 0 0 0x97 0x5C) = []" "MAX1704X_ADDR example_header = 0x36"
    "MAX1704X_ATHRD_ADDR example_header = 0x0D" "MAX1704X_CONFIG_ADDR example_header = 0x0C"
    by (simp_all add: bench_def example_header_def)
  show ?thesis
    using h setCompensation_keeps_status [OF h, of "0x55"] by (simp add: k)
qed

lemma and_not_bits:
  "(s AND NOT m) AND m = (0 :: byte)" "(s AND NOT m) OR m = s OR (m :: byte)"
  by (auto simp add: bit_eq_iff bit_simps)

lemma DF_eq: "(0xDF :: byte) = NOT 0x20"
  by simp

lemma and_DF_bits:
  "(s AND 0xDF) AND 0x20 = (0 :: byte)" "(s AND 0xDF) OR 0x20 = s OR (0x20 :: byte)"
  unfolding DF_eq by (rule and_not_bits)+

lemma clearAlertInterrupt_capture:
  "capture (snd (clearAlertInterrupt gc D K w)) = capture (snd (gc w)) @
     [Sent (MAX1704X_ADDR K) [MAX1704X_ATHRD_ADDR K] True, Requested (MAX1704X_ADDR K) 1,
      Sent (MAX1704X_ADDR K)
        [MAX1704X_CONFIG_ADDR K, fst (gc w), 0xDF AND fst (getStatus D K (snd (gc w)))] True]"
  by (simp add: clearAlertInterrupt_def case_prod_beta Let_def getStatus_capture
      Wire_beginTransmission_def Wire_write_def Wire_endTransmission_def)

text \<open>
  C6, as stated: \<open>clearAlertInterrupt\<close> clears bit 6 of the status byte and keeps every
  other bit. It does not. The mask \<open>0xDF\<close> has bit 5 clear and bit 6 set, so with the
  status byte \<open>0x7F\<close> in the device the byte written is \<open>0x5F\<close>: bit 6 is still set,
  and bit 5, which was set, is gone.
\<close>

theorem clearAlertInterrupt_bit6_counterexample:
  "last_sent (snd (clearAlertInterrupt (getCompensateValue regfile_device example_header)
      regfile_device example_header (bench 0 0 0x97 0x7F))) = [0x0C, 0x97, 0x5F]
   \<and> bit (0x5F :: byte) 6 \<and> bit (0x7F :: byte) 5 \<and> \<not> bit (0x5F :: byte) 5"
  by code_simp

text \<open>
  C6, amended: when \<open>getCompensation()\<close> returns \<open>c\<close> and the device then answers the
  status read with \<open>s\<close>, \<open>clearAlertInterrupt\<close> writes CONFIG with the two data bytes
  \<open>(c, s & 0xDF)\<close>. Bit 5 (mask \<open>0x20\<close>) of the byte written is clear, and the byte
  agrees with \<open>s\<close> on every other bit, bits 4 to 0, bit 6 and bit 7 included; for the
  status byte \<open>0x7F\<close> the byte written is \<open>0x5F\<close>.
\<close>

theorem clearAlertInterrupt_clears_bit5:
  assumes "gc w = (c, w1)"
    and "fst (on_read D (MAX1704X_ADDR K) 1
           (snd (on_write D (MAX1704X_ADDR K) [MAX1704X_ATHRD_ADDR K] True (dev w1)))) = s # rest"
  shows "capture (snd (clearAlertInterrupt gc D K w)) = capture w1 @
           [Sent (MAX1704X_ADDR K) [MAX1704X_ATHRD_ADDR K] True, Requested (MAX1704X_ADDR K) 1,
            Sent (MAX1704X_ADDR K) [MAX1704X_CONFIG_ADDR K, c, s AND 0xDF] True]
       \<and> (s AND 0xDF) AND 0x20 = 0
       \<and> (s AND 0xDF) OR 0x20 = s OR 0x20
       \<and> (0x7F AND 0xDF :: byte) = 0x5F"
proof -
  have st: "fst (getStatus D K (snd (gc w))) = s"
    using getStatus_answer [OF assms(2)] assms(1) by simp
  have sw: "0xDF AND s = s AND 0xDF"
    by (rule and.commute)
  have "capture (snd (clearAlertInterrupt gc D K w)) = capture w1 @
           [Sent (MAX1704X_ADDR K) [MAX1704X_ATHRD_ADDR K] True, Requested (MAX1704X_ADDR K) 1,
            Sent (MAX1704X_ADDR K) [MAX1704X_CONFIG_ADDR K, c, s AND 0xDF] True]"
    unfolding clearAlertInterrupt_capture st sw using assms(1) by simp
  moreover have "(0x7F AND 0xDF :: byte) = 0x5F"
    by simp
  ultimately show ?thesis
    using and_DF_bits [of s] by blast
qed

theorem clearAlertInterrupt_clears_bit5_witness:
  "getCompensateValue regfile_device example_header (bench 0 0 0x97 0x7F) =
     (0x97, snd (getCompensateValue regfile_device example_header (bench 0 0 0x97 0x7F)))
   \<and> fst (on_read regfile_device (MAX1704X_ADDR example_header) 1
       (snd (on_write regfile_device (MAX1704X_ADDR example_header)
         [MAX1704X_ATHRD_ADDR example_header] True
         (dev (snd (getCompensateValue regfile_device example_header (bench 0 0 0x97 0x7F))))))) = [0x7F]
   \<and> last_sent (snd (clearAlertInterrupt (getCompensateValue regfile_device example_header)
         regfile_device example_header (bench 0 0 0x97 0x7F))) = [0x0C, 0x97, 0x5F]"
proof -
  have f: "fst (getCompensateValue regfile_device example_header (bench 0 0 0x97 0x7F)) = 0x97"
    by code_simp
  have g: "getCompensateValue regfile_device example_header (bench 0 0 0x97 0x7F) =
     (0x97, snd (getCompensateValue regfile_device example_header (bench 0 0 0x97 0x7F)))"
    using f by (simp add: prod_eq_iff)
  have h: "fst (on_read regfile_device (MAX1704X_ADDR example_header) 1
       (snd (on_write regfile_device (MAX1704X_ADDR example_header)
         [MAX1704X_ATHRD_ADDR example_header] True
         (dev (snd (getCompensateValue regfile_device example_header (bench 0 0 0x97 0x7F))))))) = [0x7F]"
    by code_simp
  have k: "MAX1704X_CONFIG_ADDR example_header = 0x0C"
    by (simp add: example_header_def)
  show ?thesis
    using g h clearAlertInterrupt_clears_bit5
      [where gc = "getCompensateValue regfile_device example_header"
         and w = "bench 0 0 0x97 0x7F", OF g h, THEN conjunct1]
    by (simp add: last_sent_def k)
qed

section \<open>The alert threshold\<close>

lemma setAlertThreshold_capture:
  assumes "fst (on_read D (MAX1704X_ADDR K) 2
             (snd (on_write D (MAX1704X_ADDR K) [MAX1704X_CONFIG_ADDR K] False (dev w)))) = c # s # rest"
  shows "capture (snd (setAlertThreshold D K p w)) = capture w @
     [Sent (MAX1704X_ADDR K) [MAX1704X_CONFIG_ADDR K] False, Requested (MAX1704X_ADDR K) 2,
      Sent (MAX1704X_ADDR K) [MAX1704X_CONFIG_ADDR K, c, (s AND 0x80) OR thrd K] True]"
  using assms by (simp add: setAlertThreshold_def Wire_simps cast_and_80)

lemma setAlertThreshold_input_unused:
  "setAlertThreshold D K p w = setAlertThreshold D K q w"
  by (simp add: setAlertThreshold_def Let_def)

lemma encoded_threshold_in_range:
  assumes "1 \<le> p" and "p \<le> 32"
  shows "encoded_threshold p = (- p) AND 0x1F"
proof -
  have "\<not> 32 < p" and "\<not> p < 1"
    using assms by (simp_all add: word_le_nat_alt word_less_nat_alt)
  then show ?thesis by (simp add: encoded_threshold_word)
qed

lemma threshold_roundtrip:
  assumes "1 \<le> p" and "p \<le> 32"
    and "fst (getStatus D K w) AND 0x1F = encoded_threshold p"
  shows "fst (getAlertThreshold D K w) = p"
proof -
  have "NOT (fst (getStatus D K w)) AND 0x1F = NOT (fst (getStatus D K w) AND 0x1F) AND 0x1F"
    by (simp only: not_and_and)
  also have "\<dots> = NOT ((- p) AND 0x1F) AND 0x1F"
    by (simp only: assms(3) encoded_threshold_in_range [OF assms(1,2)])
  finally show ?thesis
    using roundtrip_word [OF assms(1,2)] by (simp only: getAlertThreshold_fst)
qed

lemma encoded_threshold_clamps:
  "encoded_threshold 0 = encoded_threshold 1"
  "32 < p \<Longrightarrow> encoded_threshold p = encoded_threshold 32"
  "unat (encoded_threshold p) \<le> 31"
  using and_1F_le by (simp_all add: encoded_threshold_word)

text \<open>
  C1 says the low byte written by \<open>setAlertThreshold\<close> is \<open>(s & 0x80) | encoded\<close>.
  The source computes \<open>encoded\<close> into \<open>threshold\<close> at line 98 and then writes
  \<open>sleepBit | thrd\<close> at line 110. With \<open>thrd = 0\<close>, CONFIG holding \<open>(0x97, 0x9C)\<close>
  and the argument 10, the bytes that go out are \<open>(0x97, 0x80)\<close>, where the claim
  has \<open>(0x97, 0x96)\<close>.
\<close>

theorem setAlertThreshold_writes_thrd:
  "capture (snd (setAlertThreshold regfile_device example_header 10 (bench 0 0 0x97 0x9C))) =
     [Sent 0x36 [0x0C] False, Requested 0x36 2, Sent 0x36 [0x0C, 0x97, 0x80] True]
   \<and> (0x9C AND 0x80) OR encoded_threshold 10 = 0x96"
  by code_simp

text \<open>
  C2 says \<open>getAlertThreshold\<close> returns \<open>p\<close> once \<open>setAlertThreshold(p)\<close> has written
  the status byte. The law \<open>decode(encode(p)) = p\<close> holds of the two expressions of
  the source (\<open>threshold_roundtrip\<close> above), but the encoding never reaches the wire:
  in the run of C1 the register file echoes \<open>0x80\<close>, and \<open>getAlertThreshold\<close> returns
  32 after \<open>setAlertThreshold(10)\<close>.
\<close>

theorem setAlertThreshold_then_getAlertThreshold:
  "fst (getAlertThreshold regfile_device example_header
     (snd (setAlertThreshold regfile_device example_header 10 (bench 0 0 0x97 0x9C)))) = 32"
  by code_simp

text \<open>
  C3 says the five bits written are the encoding of the clamped argument. Lines 96 and 97
  do clamp (\<open>encoded_threshold_clamps\<close> above: 0 is encoded as 1 is, anything above 32
  as 32 is), but with \<open>thrd = 0\<close> and CONFIG holding \<open>(0x97, 0x1C)\<close>,
  \<open>setAlertThreshold(0)\<close> writes the low byte \<open>0x00\<close>, where the encoding of 1 is
  \<open>0x1F\<close>.
\<close>

theorem setAlertThreshold_zero_written:
  "last_sent (snd (setAlertThreshold regfile_device example_header 0 (bench 0 0 0x97 0x1C))) =
     [0x0C, 0x97, 0x00]
   \<and> encoded_threshold 0 = 0x1F"
  by code_simp

section \<open>The cell voltage\<close>

lemma raw_or:
  "push_bit 4 (uint byte0) + drop_bit 4 (uint byte1) =
   push_bit 4 (uint byte0) OR drop_bit 4 (uint byte1)"
  for byte0 byte1 :: byte
proof (rule disjunctive_add)
  fix n
  show "\<not> bit (push_bit 4 (uint byte0)) n \<or> \<not> bit (drop_bit 4 (uint byte1)) n"
    by (auto simp add: bit_simps dest: bit_imp_le_length)
qed

lemma raw12:
  "push_bit 4 (uint byte0) + drop_bit 4 (uint byte1) =
     uint (drop_bit 4 (push_bit 8 (ucast byte0) OR ucast byte1 :: 16 word))"
  for byte0 byte1 :: byte
  unfolding raw_or
  by (rule bit_eqI) (auto simp add: bit_simps dest: bit_imp_le_length)

text \<open>
  C4. When the device answers the two-byte VCELL read with \<open>byte0, byte1\<close>,
  \<open>getCellVolt\<close> returns \<open>((byte0 << 4) + (byte1 >> 4)) * 0.00125 * _ic\<close>, and the
  integer in it is \<open>r >> 4\<close> for the 16-bit value \<open>r = (byte0 << 8) | byte1\<close>. The
  two \<open>Wire.read()\<close> calls are taken in the order written, and the \<open>double\<close>
  operations are whatever \<open>F\<close> supplies, so the statement holds of the machine's
  arithmetic as of any other.
\<close>

theorem getCellVolt_value:
  assumes "fst (on_read D (MAX1704X_ADDR K) 2
             (snd (on_write D (MAX1704X_ADDR K) [MAX1704X_VCELL_ADDR K] True (dev w)))) = byte0 # byte1 # rest"
  shows "fst (getCellVolt D K F w) =
           mul_double F (mul_double F
             (of_int_double F (push_bit 4 (uint byte0) + drop_bit 4 (uint byte1))) (lit_0_00125 F)) (ic F)
       \<and> fst (getCellVolt D K F w) =
           mul_double F (mul_double F
             (of_int_double F (uint (drop_bit 4 (push_bit 8 (ucast byte0) OR ucast byte1 :: 16 word))))
             (lit_0_00125 F)) (ic F)"
proof -
  have "fst (getCellVolt D K F w) =
           mul_double F (mul_double F
             (of_int_double F (push_bit 4 (uint byte0) + drop_bit 4 (uint byte1))) (lit_0_00125 F)) (ic F)"
    using assms by (simp add: getCellVolt_def Wire_simps)
  then show ?thesis by (simp only: raw12 simp_thms)
qed

theorem getCellVolt_value_witness:
  "fst (on_read regfile_device (MAX1704X_ADDR example_header) 2
     (snd (on_write regfile_device (MAX1704X_ADDR example_header)
        [MAX1704X_VCELL_ADDR example_header] True (dev (bench 0xC8 0x57 0x97 0x1C))))) = [0xC8, 0x57]
   \<and> fst (getCellVolt regfile_device example_header symbolic_fpu (bench 0xC8 0x57 0x97 0x1C)) =
       DMul (DMul (DInt 3205) DLit_0_00125) DIc"
proof -
  have h: "fst (on_read regfile_device (MAX1704X_ADDR example_header) 2
     (snd (on_write regfile_device (MAX1704X_ADDR example_header)
        [MAX1704X_VCELL_ADDR example_header] True (dev (bench 0xC8 0x57 0x97 0x1C))))) = [0xC8, 0x57]"
    by code_simp
  have r: "uint (drop_bit 4 (push_bit 8 (ucast (0xC8 :: byte)) OR ucast (0x57 :: byte) :: 16 word)) = 3205"
    by code_simp
  show ?thesis
    using h getCellVolt_value [OF h, of symbolic_fpu, THEN conjunct2]
    by (simp add: r symbolic_fpu_def)
qed

section \<open>Sleep and wake\<close>

lemma sleep_last_sent:
  "last_sent (snd (sleep gc D K w)) =
     [MAX1704X_CONFIG_ADDR K, fst (gc w), 0x80 OR fst (getAlertThreshold D K (snd (gc w)))]"
  by (simp add: sleep_def last_sent_def case_prod_beta Let_def
      Wire_beginTransmission_def Wire_write_def Wire_endTransmission_def)

lemma wake_last_sent:
  "last_sent (snd (wake gc D K w)) =
     [MAX1704X_CONFIG_ADDR K, fst (gc w), 0x7F AND fst (getAlertThreshold D K (snd (gc w)))]"
  by (simp add: wake_def last_sent_def case_prod_beta Let_def
      Wire_beginTransmission_def Wire_write_def Wire_endTransmission_def)

lemma status_echoed_getStatus:
  assumes "status_echoed D K w" and "last_sent w = [r, c, s]"
  shows "fst (getStatus D K w) = s"
  using assms by (simp add: status_echoed_def getStatus_fst)

lemma sleeping_fst: "fst (sleeping D K w) = (fst (getStatus D K w) AND 0x80 = 0x80)"
  by (simp add: sleeping_def case_prod_beta)

lemma bit7_set: "(0x80 OR t) AND 0x80 = (0x80 :: byte)"
  by (auto simp add: bit_eq_iff bit_simps)

lemma bit7_clear: "(0x7F AND t) AND 0x80 \<noteq> (0x80 :: byte)"
proof -
  have "(0x7F AND t) AND 0x80 = (0x7F AND 0x80) AND t"
    by (simp only: and.assoc and.commute and.left_commute)
  also have "\<dots> = 0" by simp
  finally show ?thesis by simp
qed

lemma sleep_dev:
  "dev (snd (sleep gc D K w)) =
     snd (on_write D (MAX1704X_ADDR K)
       [MAX1704X_CONFIG_ADDR K, fst (gc w), 0x80 OR fst (getAlertThreshold D K (snd (gc w)))] True
       (dev (snd (getAlertThreshold D K (snd (gc w))))))"
  by (simp add: sleep_def case_prod_beta Let_def
      Wire_beginTransmission_def Wire_write_def Wire_endTransmission_def)

lemma wake_dev:
  "dev (snd (wake gc D K w)) =
     snd (on_write D (MAX1704X_ADDR K)
       [MAX1704X_CONFIG_ADDR K, fst (gc w), 0x7F AND fst (getAlertThreshold D K (snd (gc w)))] True
       (dev (snd (getAlertThreshold D K (snd (gc w))))))"
  by (simp add: wake_def case_prod_beta Let_def
      Wire_beginTransmission_def Wire_write_def Wire_endTransmission_def)

lemma echoes_config_getStatus:
  assumes "echoes_config D K"
    and "dev w = snd (on_write D (MAX1704X_ADDR K) [MAX1704X_CONFIG_ADDR K, c, s] True d)"
  shows "fst (getStatus D K w) = s"
proof -
  have "take 1 (fst (on_read D (MAX1704X_ADDR K) 1
          (snd (on_write D (MAX1704X_ADDR K) [MAX1704X_ATHRD_ADDR K] True (dev w))))) = [s]"
    using assms(1) unfolding echoes_config_def assms(2) by blast
  then show ?thesis by (simp add: getStatus_fst)
qed

text \<open>
  A register file echoes the CONFIG bytes in every state, as soon as the status byte is
  the byte after the CONFIG address.
\<close>

lemma regfile_echoes_config:
  assumes "MAX1704X_ATHRD_ADDR K = MAX1704X_CONFIG_ADDR K + 1"
  shows "echoes_config regfile_device K"
  using assms by (simp add: echoes_config_def regfile_device_def)

text \<open>
  C8. Against a device that echoes the last status byte written to CONFIG on the next
  status read, \<open>sleeping\<close> returns true in the state \<open>sleep\<close> leaves and false in the
  state \<open>wake\<close> leaves, for every \<open>getCompensation\<close> and every prior state of the
  device and the transport. The hypothesis speaks of the device only; that \<open>sleep\<close>
  and \<open>wake\<close> write, and write bit 7 set or clear, is part of what is proved.
\<close>

theorem sleeping_after_sleep_and_wake:
  assumes "echoes_config D K"
  shows "fst (sleeping D K (snd (sleep gc D K w)))
       \<and> \<not> fst (sleeping D K (snd (wake gc D K w)))"
proof
  have "fst (getStatus D K (snd (sleep gc D K w))) =
      0x80 OR fst (getAlertThreshold D K (snd (gc w)))"
    by (rule echoes_config_getStatus [OF assms sleep_dev])
  then show "fst (sleeping D K (snd (sleep gc D K w)))"
    by (simp only: sleeping_fst bit7_set)
next
  have "fst (getStatus D K (snd (wake gc D K w))) =
      0x7F AND fst (getAlertThreshold D K (snd (gc w)))"
    by (rule echoes_config_getStatus [OF assms wake_dev])
  then show "\<not> fst (sleeping D K (snd (wake gc D K w)))"
    by (simp only: sleeping_fst bit7_clear not_False_eq_True)
qed

theorem sleeping_after_sleep_and_wake_witness:
  "echoes_config regfile_device example_header
   \<and> fst (sleeping regfile_device example_header
     (snd (sleep (getCompensateValue regfile_device example_header) regfile_device example_header
        (bench 0 0 0x97 0x1C))))
   \<and> \<not> fst (sleeping regfile_device example_header
     (snd (wake (getCompensateValue regfile_device example_header) regfile_device example_header
        (bench 0 0 0x97 0x9C))))"
proof -
  have e: "echoes_config regfile_device example_header"
    by (rule regfile_echoes_config) (simp add: example_header_def)
  show ?thesis
    using e
      sleeping_after_sleep_and_wake [OF e,
        where gc = "getCompensateValue regfile_device example_header" and w = "bench 0 0 0x97 0x1C",
        THEN conjunct1]
      sleeping_after_sleep_and_wake [OF e,
        where gc = "getCompensateValue regfile_device example_header" and w = "bench 0 0 0x97 0x9C",
        THEN conjunct2]
    by blast
qed

text \<open>
  In the states \<open>sleep\<close> and \<open>wake\<close> leave, the register file answers the status
  read with the low byte just written.
\<close>

lemma store_two: "store m p [c, s] (p + 1) = s"
  by simp

lemma regfile_echoes_sleep:
  assumes "MAX1704X_ATHRD_ADDR K = MAX1704X_CONFIG_ADDR K + 1"
  shows "status_echoed regfile_device K (snd (sleep gc regfile_device K w))"
    and "status_echoed regfile_device K (snd (wake gc regfile_device K w))"
  using assms
  by (simp_all add: status_echoed_def sleep_last_sent wake_last_sent)
     (simp_all add: sleep_def wake_def case_prod_beta Let_def regfile_device_def
      Wire_beginTransmission_def Wire_write_def Wire_endTransmission_def)

lemma not_or_and_disjoint:
  assumes "k AND m = 0"
  shows "NOT (k OR p) AND m = NOT p AND (m :: byte)"
proof -
  have "\<not> bit (k AND m) n" for n
    by (simp add: assms)
  then have "\<not> (bit k n \<and> bit m n)" for n
    by (simp add: bit_and_iff)
  then show ?thesis
    by (auto simp add: bit_eq_iff bit_simps)
qed

lemma not_and_and_covered:
  assumes "k AND m = m"
  shows "NOT (k AND p) AND m = NOT p AND (m :: byte)"
proof -
  have "bit m n \<Longrightarrow> bit k n" for n
    by (metis assms bit_and_iff)
  then show ?thesis
    by (auto simp add: bit_eq_iff bit_simps)
qed

lemma decode_ignores_bit7:
  "NOT (0x80 OR p) AND 0x1F = NOT p AND (0x1F :: byte)"
  "NOT (0x7F AND p) AND 0x1F = NOT p AND (0x1F :: byte)"
  by (rule not_or_and_disjoint, simp) (rule not_and_and_covered, simp)

lemma not_and_1F_small:
  assumes "p \<le> 31"
  shows "NOT p AND 0x1F = 31 - (p :: byte)"
proof -
  have "p AND 0x1F = p" using assms by (rule small_and_1F)
  then have "\<And>n. bit p n \<Longrightarrow> bit (0x1F :: byte) n"
    by (metis bit_and_iff)
  then have "0x1F - p = 0x1F AND NOT p"
    by (rule disjunctive_diff)
  then show ?thesis by (simp add: and.commute)
qed

lemma self_inverse_16:
  assumes "p \<le> 31"
  shows "(32 - p = p) = (p = (16 :: byte))"
proof -
  have u: "unat p \<le> 31" using assms by (simp add: word_le_nat_alt)
  then have "unat (32 - p) = 32 - unat p"
    by (simp add: unat_sub word_le_nat_alt)
  then have "(32 - p = p) = (32 - unat p = unat p)"
    by (metis word_unat_eq_iff)
  also have "\<dots> = (unat p = 16)" using u by arith
  also have "\<dots> = (p = 16)"
    by (simp add: word_unat_eq_iff)
  finally show ?thesis .
qed


lemma decode_after_sleep:
  assumes "p \<le> 31"
  shows "(NOT (0x80 OR p) AND 0x1F) + 1 = 32 - (p :: byte)"
    and "(NOT (0x7F AND p) AND 0x1F) + 1 = 32 - (p :: byte)"
  by (simp_all only: decode_ignores_bit7 not_and_1F_small [OF assms]) simp_all

text \<open>
  C10, as stated: after \<open>sleep\<close> the threshold read back is \<open>32 - p\<close> rather than
  \<open>p\<close>, for every \<open>p\<close> from 1 to 31, so the stored threshold is not preserved. At
  \<open>p = 16\<close> it is preserved: with the status byte \<open>0x10\<close> the threshold decoded
  before is 16, the register file echoes the byte \<open>sleep\<close> writes, and the threshold
  decoded afterwards is 16 again.
\<close>

theorem sleep_threshold_fixed_point_counterexample:
  "fst (getAlertThreshold regfile_device example_header (bench 0 0 0x97 0x10)) = 16
   \<and> fst (getAlertThreshold regfile_device example_header
      (snd (getCompensateValue regfile_device example_header (bench 0 0 0x97 0x10)))) = 16
   \<and> status_echoed regfile_device example_header
      (snd (sleep (getCompensateValue regfile_device example_header) regfile_device example_header
        (bench 0 0 0x97 0x10)))
   \<and> fst (getAlertThreshold regfile_device example_header
      (snd (sleep (getCompensateValue regfile_device example_header) regfile_device example_header
        (bench 0 0 0x97 0x10)))) = 16"
  by code_simp

text \<open>
  C10, amended: \<open>sleep\<close> and \<open>wake\<close> write the decoded threshold \<open>p\<close> itself into
  the low byte (\<open>0x80 | p\<close> and \<open>0x7F & p\<close>), not its five-bit encoding. Against a
  device that echoes the byte written, and for \<open>p\<close> from 1 to 31 (\<open>p\<close> is never 0),
  \<open>getAlertThreshold\<close> returns \<open>32 - p\<close> afterwards, which differs from \<open>p\<close>
  except at \<open>p = 16\<close>. For \<open>p = 32\<close> the bytes written are \<open>0xA0\<close> and \<open>0x20\<close>:
  bit 5 is set. Here \<open>p\<close> is the threshold that \<open>sleep\<close> or \<open>wake\<close> itself decodes,
  after its call of \<open>getCompensation\<close>.
\<close>

theorem sleep_wake_rewrite_threshold:
  assumes "gc w = (c, w1)" and "fst (getAlertThreshold D K w1) = p"
  shows "last_sent (snd (sleep gc D K w)) = [MAX1704X_CONFIG_ADDR K, c, 0x80 OR p]
       \<and> last_sent (snd (wake gc D K w)) = [MAX1704X_CONFIG_ADDR K, c, 0x7F AND p]
       \<and> (p \<le> 31 \<and> status_echoed D K (snd (sleep gc D K w)) \<longrightarrow>
            fst (getAlertThreshold D K (snd (sleep gc D K w))) = 32 - p)
       \<and> (p \<le> 31 \<and> status_echoed D K (snd (wake gc D K w)) \<longrightarrow>
            fst (getAlertThreshold D K (snd (wake gc D K w))) = 32 - p)
       \<and> (p \<le> 31 \<longrightarrow> (32 - p = p) = (p = 16))
       \<and> (0x80 OR 32 :: byte) = 0xA0 \<and> (0x7F AND 32 :: byte) = 0x20"
proof -
  have s: "last_sent (snd (sleep gc D K w)) = [MAX1704X_CONFIG_ADDR K, c, 0x80 OR p]"
    using assms by (simp add: sleep_last_sent)
  have k: "last_sent (snd (wake gc D K w)) = [MAX1704X_CONFIG_ADDR K, c, 0x7F AND p]"
    using assms by (simp add: wake_last_sent)
  have a: "fst (getAlertThreshold D K (snd (sleep gc D K w))) = 32 - p"
    if "p \<le> 31" and "status_echoed D K (snd (sleep gc D K w))"
    using status_echoed_getStatus [OF that(2) s] decode_after_sleep(1) [OF that(1)]
    by (simp only: getAlertThreshold_fst)
  have b: "fst (getAlertThreshold D K (snd (wake gc D K w))) = 32 - p"
    if "p \<le> 31" and "status_echoed D K (snd (wake gc D K w))"
    using status_echoed_getStatus [OF that(2) k] decode_after_sleep(2) [OF that(1)]
    by (simp only: getAlertThreshold_fst)
  have c: "(0x80 OR 32 :: byte) = 0xA0" "(0x7F AND 32 :: byte) = 0x20"
    by simp_all
  show ?thesis
    using s k a b c self_inverse_16 [of p] by blast
qed

theorem sleep_wake_rewrite_threshold_witness:
  "getCompensateValue regfile_device example_header (bench 0 0 0x97 0x1C) =
     (0x97, snd (getCompensateValue regfile_device example_header (bench 0 0 0x97 0x1C)))
   \<and> fst (getAlertThreshold regfile_device example_header
       (snd (getCompensateValue regfile_device example_header (bench 0 0 0x97 0x1C)))) = 4
   \<and> (4 :: byte) \<le> 31
   \<and> status_echoed regfile_device example_header
       (snd (sleep (getCompensateValue regfile_device example_header) regfile_device
         example_header (bench 0 0 0x97 0x1C)))
   \<and> status_echoed regfile_device example_header
       (snd (wake (getCompensateValue regfile_device example_header) regfile_device
         example_header (bench 0 0 0x97 0x1C)))
   \<and> fst (getAlertThreshold regfile_device example_header
       (snd (sleep (getCompensateValue regfile_device example_header) regfile_device
         example_header (bench 0 0 0x97 0x1C)))) = 28
   \<and> fst (getAlertThreshold regfile_device example_header
       (snd (wake (getCompensateValue regfile_device example_header) regfile_device
         example_header (bench 0 0 0x97 0x1C)))) = 28
   \<and> (32 - 4 = (4 :: byte)) = (4 = (16 :: byte))"
proof -
  have f: "fst (getCompensateValue regfile_device example_header (bench 0 0 0x97 0x1C)) = 0x97"
    by code_simp
  have g: "getCompensateValue regfile_device example_header (bench 0 0 0x97 0x1C) =
     (0x97, snd (getCompensateValue regfile_device example_header (bench 0 0 0x97 0x1C)))"
    using f by (simp add: prod_eq_iff)
  have h: "fst (getAlertThreshold regfile_device example_header
       (snd (getCompensateValue regfile_device example_header (bench 0 0 0x97 0x1C)))) = 4"
    by code_simp
  have e1: "status_echoed regfile_device example_header
       (snd (sleep (getCompensateValue regfile_device example_header) regfile_device
         example_header (bench 0 0 0x97 0x1C)))"
    by code_simp
  have e2: "status_echoed regfile_device example_header
       (snd (wake (getCompensateValue regfile_device example_header) regfile_device
         example_header (bench 0 0 0x97 0x1C)))"
    by code_simp
  have le: "(4 :: byte) \<le> 31" by simp
  have n: "32 - (4 :: byte) = 28" by simp
  show ?thesis
    using g h e1 e2 le
      sleep_wake_rewrite_threshold
        [where gc = "getCompensateValue regfile_device example_header"
           and w = "bench 0 0 0x97 0x1C", OF g h]
    unfolding n by blast
qed

end
